theory Spec2Isabelle
  imports Complex_Main
begin

section \<open>Python values\<close>

text \<open>
  The script \<^verbatim>\<open>SW_DATA.py\<close> drives a running SolidWorks instance through COM and
  collects one dictionary per file. An exception is modelled by its message; a statement
  that may raise yields \<open>Inl\<close> of the message or \<open>Inr\<close> of its value. Every exception
  met here (COM errors, attribute, type and index errors) is an instance of Python's
  \<^verbatim>\<open>Exception\<close>, so both \<^verbatim>\<open>except:\<close> and \<^verbatim>\<open>except Exception\<close> catch it.
\<close>

type_synonym exn = string

type_synonym 'a res = "exn + 'a"

text \<open>
  The values stored in a result row: text, booleans, floats and the integer literal
  \<^verbatim>\<open>0\<close>. A Python float is modelled by an exact rational number, so binary rounding
  error is outside the model.
\<close>

datatype pyval = PStr string | PBool bool | PFloat rat | PInt int

text \<open>
  A row is a Python \<^verbatim>\<open>dict\<close> with string keys: insertion ordered, and an assignment
  to a key that is present replaces its value in place.
\<close>

type_synonym row = "(string \<times> pyval) list"

fun setitem :: "row \<Rightarrow> string \<Rightarrow> pyval \<Rightarrow> row" where
  "setitem [] k v = [(k, v)]"
| "setitem ((k', v') # r) k v =
     (if k' = k then (k, v) # r else (k', v') # setitem r k v)"

definition dict_keys :: "row \<Rightarrow> string list" where
  "dict_keys r = map fst r"

definition dict_get :: "row \<Rightarrow> string \<Rightarrow> pyval option" where
  "dict_get r k = map_of r k"

text \<open>
  \<^verbatim>\<open>round(x, n)\<close> on a float rounds to \<open>n\<close> decimals, a tie going to the even
  neighbour.
\<close>

definition round_half_even :: "rat \<Rightarrow> int" where
  "round_half_even x =
     (let f = \<lfloor>x\<rfloor>; d = x - of_int f
      in if d < 1 / 2 then f
         else if 1 / 2 < d then f + 1
         else if even f then f else f + 1)"

definition py_round :: "rat \<Rightarrow> nat \<Rightarrow> rat" where
  "py_round x n = of_int (round_half_even (x * 10 ^ n)) / 10 ^ n"

text \<open>
  Indexing a tuple: \<^verbatim>\<open>xs[i]\<close> raises \<^verbatim>\<open>IndexError\<close> out of range.
\<close>

definition getitem :: "'a list \<Rightarrow> nat \<Rightarrow> 'a res" where
  "getitem xs i = (if i < length xs then Inr (xs ! i) else Inl ''tuple index out of range'')"

section \<open>Strings and paths\<close>

text \<open>
  A \<open>char\<close> stands for a code point below 256. \<^verbatim>\<open>str.strip\<close> removes white space at
  both ends, \<^verbatim>\<open>str.lower\<close> maps the upper-case letters to lower case, and
  \<^verbatim>\<open>a in b\<close> on strings tests for a contiguous occurrence.
\<close>

definition isspace :: "char \<Rightarrow> bool" where
  "isspace c =
     (c \<in> set [CHR 0x09, CHR 0x0A, CHR 0x0B, CHR 0x0C, CHR 0x0D, CHR 0x1C, CHR 0x1D,
                CHR 0x1E, CHR 0x1F, CHR 0x20, CHR 0x85, CHR 0xA0])"

definition strip :: "string \<Rightarrow> string" where
  "strip s = rev (dropWhile isspace (rev (dropWhile isspace s)))"

definition lower_char :: "char \<Rightarrow> char" where
  "lower_char c =
     (let n = (of_char c :: nat)
      in if (65 \<le> n \<and> n \<le> 90) \<or> (192 \<le> n \<and> n \<le> 222 \<and> n \<noteq> 215)
         then char_of (n + 32) else c)"

definition lower :: "string \<Rightarrow> string" where
  "lower s = map lower_char s"

fun startswith :: "string \<Rightarrow> string \<Rightarrow> bool" where
  "startswith s [] = True"
| "startswith [] (c # cs) = False"
| "startswith (x # xs) (c # cs) = (x = c \<and> startswith xs cs)"

fun contains :: "string \<Rightarrow> string \<Rightarrow> bool" where
  "contains [] sub = (sub = [])"
| "contains (x # xs) sub = (startswith (x # xs) sub \<or> contains xs sub)"

text \<open>
  \<^verbatim>\<open>str.rfind\<close> for a single character: the highest index holding it, or \<open>-1\<close>.
\<close>

fun find_last :: "char \<Rightarrow> string \<Rightarrow> int \<Rightarrow> int \<Rightarrow> int" where
  "find_last c [] i found = found"
| "find_last c (x # xs) i found = find_last c xs (i + 1) (if x = c then i else found)"

definition rfind :: "string \<Rightarrow> char \<Rightarrow> int" where
  "rfind p c = find_last c p 0 (- 1)"

text \<open>
  \<^verbatim>\<open>os.path.splitext\<close> of the Windows path module, which the script runs under
  (it needs \<^verbatim>\<open>win32com\<close>): the separators are the backslash and the slash, and the
  extension starts at the last dot of the last component unless only dots precede it
  there. The inner loop looks for a character other than a dot between the last
  separator and the last dot.
\<close>

function skip_leading_dots :: "string \<Rightarrow> int \<Rightarrow> int \<Rightarrow> bool" where
  "skip_leading_dots p filenameIndex dotIndex =
     (if filenameIndex < dotIndex
      then (if take 1 (drop (nat filenameIndex) p) \<noteq> ''.'' then True
            else skip_leading_dots p (filenameIndex + 1) dotIndex)
      else False)"
  by pat_completeness auto
termination
  by (relation "measure (\<lambda>(p, f, d). nat (d - f))") auto

declare skip_leading_dots.simps [simp del]

definition splitext :: "string \<Rightarrow> string \<times> string" where
  "splitext p =
     (let sepIndex = max (rfind p (CHR 0x5C)) (rfind p (CHR ''/''));
          dotIndex = rfind p (CHR ''.'')
      in if dotIndex > sepIndex \<and> skip_leading_dots p (sepIndex + 1) dotIndex
         then (take (nat dotIndex) p, drop (nat dotIndex) p)
         else (p, []))"

text \<open>
  The document kind of a file, lines 115 and 116 of the script: 1 is a part, 2 an
  assembly.
\<close>

definition doc_type_of :: "string \<Rightarrow> int" where
  "doc_type_of file_path =
     (let ext = lower (snd (splitext file_path))
      in if ext = ''.sldprt'' then 1 else 2)"

section \<open>The automation objects\<close>

text \<open>
  SolidWorks is an opaque provider of objects. Each object is modelled by the outcomes
  of the calls the script makes on it: \<open>Inl\<close> when the statement holding the call
  raises (the call itself, wrapping its result in a dynamic dispatch object, or
  unpacking it), \<open>Inr\<close> of the value otherwise. Numbers and strings have the types the
  SolidWorks interface declares for them; a result the script tests for truth before it
  uses it is an \<open>option\<close>, \<open>None\<close> being Python's \<^verbatim>\<open>None\<close>. The outcome of a call on
  an object does not change while one file is processed.

  \<open>Get4\<close> gives the third component of its result, the resolved value, for a property
  name (the other arguments are always \<^verbatim>\<open>False, "", ""\<close>).
\<close>

record prop_mgr =
  Get4 :: "string \<Rightarrow> string res"

record configuration =
  CustomPropertyManager :: "prop_mgr res"
  Name :: "string res"
  GetBox :: "rat list option res"

record mass_property =
  set_UseSystemUnits :: "unit res"
  UpdateMassProperties :: "unit res"
  Mass :: "rat res"
  Volume :: "rat res"
  SurfaceArea :: "rat res"

record feature_definition =
  Thickness :: "rat res"

text \<open>
  \<open>GetTypeName2\<close> is the outcome of reading the attribute and calling it when it is
  callable. \<open>GetDefinition_call\<close> is the outcome of \<^verbatim>\<open>f_dyn.GetDefinition()\<close>,
  \<open>GetDefinition_attr\<close> that of the bare attribute \<^verbatim>\<open>f_dyn.GetDefinition\<close>.
\<close>

record feature =
  GetTypeName2 :: "string res"
  GetDefinition_call :: "feature_definition option res"
  GetDefinition_attr :: "feature_definition option res"

text \<open>
  \<open>GetMaterialPropertyName2\<close> gives the material name (the second component of the
  result) for a configuration name. \<open>GetMassProperties\<close> is the legacy array after the
  attribute has been read and called when callable. An element of the feature list is
  \<open>Inl\<close> when wrapping it raises. \<open>GetPartBox\<close> stands for \<^verbatim>\<open>GetPartBox(True)\<close> and
  \<open>GetBox0\<close> for \<^verbatim>\<open>GetBox(0)\<close> on the document. \<open>GetTitle_call\<close> and
  \<open>GetTitle_attr\<close> are \<^verbatim>\<open>model.GetTitle()\<close> and \<^verbatim>\<open>model.GetTitle\<close>.
\<close>

record model_doc =
  GetActiveConfiguration :: "configuration option res"
  Extension_CustomPropertyManager :: "prop_mgr res"
  GetMaterialPropertyName2 :: "string \<Rightarrow> string res"
  Extension_CreateMassProperty :: "mass_property res"
  GetMassProperties :: "rat list option res"
  FeatureManager_GetFeatures :: "feature res list option res"
  GetPartBox :: "rat list option res"
  GetBox0 :: "rat list option res"
  GetTitle_call :: "string res"
  GetTitle_attr :: "string res"

text \<open>
  The application: \<open>OpenDoc6\<close> takes the path and the document kind (the options are
  always \<^verbatim>\<open>3, ""\<close>) and gives the document, \<open>None\<close> for a falsy handle, or \<open>Inl\<close>
  when the call or the dispatch of its result raises.
\<close>

record sld_works =
  DocumentVisible :: "bool \<Rightarrow> int \<Rightarrow> unit res"
  OpenDoc6 :: "string \<Rightarrow> int \<Rightarrow> model_doc option res"
  CloseDoc :: "string \<Rightarrow> unit res"

section \<open>Helper functions of the script\<close>

text \<open>
  \<^verbatim>\<open>get_custom_property\<close>, lines 49 to 69: one \<^verbatim>\<open>try\<close> around both sources, every
  exception giving the empty string.
\<close>

definition get_custom_property :: "model_doc \<Rightarrow> string \<Rightarrow> string" where
  "get_custom_property model prop_name =
     (case GetActiveConfiguration model of
        Inl e \<Rightarrow> ''''
      | Inr None \<Rightarrow> ''''
      | Inr (Some config) \<Rightarrow>
          (case CustomPropertyManager config of
             Inl e \<Rightarrow> ''''
           | Inr cus_prop_mgr \<Rightarrow>
               (case Get4 cus_prop_mgr prop_name of
                  Inl e \<Rightarrow> ''''
                | Inr resolved_val \<Rightarrow>
                    if strip resolved_val \<noteq> '''' then resolved_val
                    else
                      (case Extension_CustomPropertyManager model of
                         Inl e \<Rightarrow> ''''
                       | Inr cus_prop_mgr' \<Rightarrow>
                           (case Get4 cus_prop_mgr' prop_name of
                              Inl e \<Rightarrow> ''''
                            | Inr resolved_val' \<Rightarrow>
                                if strip resolved_val' \<noteq> '''' then resolved_val'
                                else '''')))))"

text \<open>
  The native material lookup of \<^verbatim>\<open>get_material\<close>, lines 83 and 84: the name of the
  active configuration, then the material bound to it.
\<close>

definition native_material :: "model_doc \<Rightarrow> string res" where
  "native_material model =
     (case GetActiveConfiguration model of
        Inl e \<Rightarrow> Inl e
      | Inr None \<Rightarrow> Inl ''NoneType object has no attribute Name''
      | Inr (Some config) \<Rightarrow>
          (case Name config of
             Inl e \<Rightarrow> Inl e
           | Inr config_name \<Rightarrow> GetMaterialPropertyName2 model config_name))"

text \<open>\<^verbatim>\<open>get_material\<close>, lines 71 to 90.\<close>

definition get_material :: "model_doc \<Rightarrow> int \<Rightarrow> string" where
  "get_material model doc_type =
     (if doc_type \<noteq> 1 then ''N/A (Assembly)''
      else
        (let mat_prop = get_custom_property model ''Material''
         in if mat_prop \<noteq> '''' \<and> \<not> contains mat_prop ''SW-Material'' then mat_prop
            else
              (case native_material model of
                 Inl e \<Rightarrow> ''Not Specified''
               | Inr mat_name \<Rightarrow>
                   if mat_name \<noteq> '''' then mat_name else ''Not Specified'')))"

section \<open>The extraction steps of \<^verbatim>\<open>process_files\<close>\<close>

text \<open>
  Each step takes the row built so far and gives the row after it. A row is mutated in
  place, so the assignments made before an exception stay.
\<close>

subsection \<open>Mass properties, lines 154 to 186\<close>

text \<open>
  The primary path: the row after the \<^verbatim>\<open>try\<close> body, and the exception that ended
  it, if any.
\<close>

definition mass_primary :: "model_doc \<Rightarrow> row \<Rightarrow> row \<times> exn option" where
  "mass_primary model row =
     (case Extension_CreateMassProperty model of
        Inl e \<Rightarrow> (row, Some e)
      | Inr mass_prop \<Rightarrow>
     (case set_UseSystemUnits mass_prop of
        Inl e \<Rightarrow> (row, Some e)
      | Inr u \<Rightarrow>
     (case UpdateMassProperties mass_prop of
        Inl e \<Rightarrow> (row, Some e)
      | Inr u' \<Rightarrow>
     (case Mass mass_prop of
        Inl e \<Rightarrow> (row, Some e)
      | Inr m \<Rightarrow>
          (let row1 = setitem row ''Mass (g)'' (PFloat (py_round (m * 1000) 2))
           in case Volume mass_prop of
                Inl e \<Rightarrow> (row1, Some e)
              | Inr v \<Rightarrow>
                  (let row2 = setitem row1 ''Volume (mm^3)''
                                (PFloat (py_round (v * 1000000000) 2))
                   in case SurfaceArea mass_prop of
                        Inl e \<Rightarrow> (row2, Some e)
                      | Inr a \<Rightarrow>
                          (setitem row2 ''Surface Area (mm^2)''
                             (PFloat (py_round (a * 1000000) 2)), None)))))))"

definition mass_zero :: "row \<Rightarrow> row" where
  "mass_zero row =
     setitem (setitem (setitem row ''Mass (g)'' (PInt 0)) ''Volume (mm^3)'' (PInt 0))
       ''Surface Area (mm^2)'' (PInt 0)"

text \<open>The legacy fallback with its own \<^verbatim>\<open>try\<close>, lines 170 to 186.\<close>

definition mass_legacy :: "model_doc \<Rightarrow> row \<Rightarrow> row" where
  "mass_legacy model row =
     (case GetMassProperties model of
        Inl e \<Rightarrow> mass_zero row
      | Inr None \<Rightarrow> mass_zero row
      | Inr (Some vals) \<Rightarrow>
          if vals = [] then mass_zero row
          else
            (case getitem vals 3 of
               Inl e \<Rightarrow> mass_zero row
             | Inr v3 \<Rightarrow>
                 (let row1 = setitem row ''Volume (mm^3)''
                               (PFloat (py_round (v3 * 1000000000) 2))
                  in case getitem vals 4 of
                       Inl e \<Rightarrow> mass_zero row1
                     | Inr v4 \<Rightarrow>
                         (let row2 = setitem row1 ''Surface Area (mm^2)''
                                       (PFloat (py_round (v4 * 1000000) 2))
                          in case getitem vals 5 of
                               Inl e \<Rightarrow> mass_zero row2
                             | Inr v5 \<Rightarrow>
                                 setitem row2 ''Mass (g)''
                                   (PFloat (py_round (v5 * 1000) 2))))))"

definition mass_step :: "model_doc \<Rightarrow> row \<Rightarrow> row" where
  "mass_step model row =
     (case mass_primary model row of
        (row', None) \<Rightarrow> row'
      | (row', Some e) \<Rightarrow> mass_legacy model row')"

subsection \<open>Sheet metal, lines 189 to 216\<close>

text \<open>
  The branch taken at a feature whose type name is \<^verbatim>\<open>SheetMetal\<close>: the thickness
  read from its definition, or the exception that leaves the \<^verbatim>\<open>try\<close>. The second
  \<open>GetDefinition\<close> is tried when the first raises; a falsy definition leaves the
  thickness at \<^verbatim>\<open>0.0\<close>.
\<close>

definition read_thickness :: "feature \<Rightarrow> rat res" where
  "read_thickness f_dyn =
     (case (case GetDefinition_call f_dyn of
              Inl e \<Rightarrow> GetDefinition_attr f_dyn
            | Inr fd \<Rightarrow> Inr fd) of
        Inl e \<Rightarrow> Inl e
      | Inr None \<Rightarrow> Inr 0
      | Inr (Some fd) \<Rightarrow> Thickness fd)"

text \<open>
  The loop over the features: the values of \<^verbatim>\<open>is_sm\<close> and \<^verbatim>\<open>thk\<close> when the
  \<^verbatim>\<open>try\<close> is left, by the \<^verbatim>\<open>break\<close>, by the end of the list or by an exception.
  \<^verbatim>\<open>is_sm\<close> is set before the definition is read.
\<close>

fun scan_features :: "feature res list \<Rightarrow> bool \<times> rat" where
  "scan_features [] = (False, 0)"
| "scan_features (Inl e # fs) = (False, 0)"
| "scan_features (Inr f_dyn # fs) =
     (let tn = (case GetTypeName2 f_dyn of Inl e \<Rightarrow> '''' | Inr t \<Rightarrow> t)
      in if tn = ''SheetMetal''
         then (case read_thickness f_dyn of
                 Inl e \<Rightarrow> (True, 0)
               | Inr thk \<Rightarrow> (True, thk))
         else scan_features fs)"

text \<open>
  The whole \<^verbatim>\<open>try\<close> statement of lines 192 to 214: an empty or missing feature
  list, or an exception while it is fetched, leaves both variables as initialised.
\<close>

definition sheet_metal_try :: "model_doc \<Rightarrow> bool \<times> rat" where
  "sheet_metal_try model =
     (case FeatureManager_GetFeatures model of
        Inl e \<Rightarrow> (False, 0)
      | Inr None \<Rightarrow> (False, 0)
      | Inr (Some all_feats) \<Rightarrow> scan_features all_feats)"

definition sheet_metal_step :: "model_doc \<Rightarrow> row \<Rightarrow> row" where
  "sheet_metal_step model row =
     (let (is_sm, thk) = sheet_metal_try model;
          row1 = setitem row ''Is Sheet Metal'' (PBool is_sm)
      in setitem row1 ''Thickness (mm)''
           (if is_sm then PFloat (py_round (thk * 1000) 3) else PInt 0))"

subsection \<open>Dimensions, lines 219 to 238\<close>

definition get_box :: "model_doc \<Rightarrow> int \<Rightarrow> rat list option res" where
  "get_box model doc_type =
     (if doc_type = 1
      then (case GetPartBox model of
              Inr box \<Rightarrow> Inr box
            | Inl e \<Rightarrow>
                (case GetActiveConfiguration model of
                   Inl e' \<Rightarrow> Inl e'
                 | Inr None \<Rightarrow> Inr None
                 | Inr (Some conf) \<Rightarrow> GetBox conf))
      else GetBox0 model)"

text \<open>
  The three differences, read in the order \<^verbatim>\<open>box[3], box[0], box[4], box[1],
  box[5], box[2]\<close>; a box shorter than six raises.
\<close>

definition extent :: "rat list \<Rightarrow> nat \<Rightarrow> nat \<Rightarrow> rat res" where
  "extent box i j =
     (case getitem box i of
        Inl e \<Rightarrow> Inl e
      | Inr hi \<Rightarrow> (case getitem box j of Inl e \<Rightarrow> Inl e | Inr lo \<Rightarrow> Inr \<bar>hi - lo\<bar>))"

definition extents :: "rat list \<Rightarrow> rat list res" where
  "extents box =
     (case extent box 3 0 of
        Inl e \<Rightarrow> Inl e
      | Inr dx \<Rightarrow>
          (case extent box 4 1 of
             Inl e \<Rightarrow> Inl e
           | Inr dy \<Rightarrow>
               (case extent box 5 2 of
                  Inl e \<Rightarrow> Inl e
                | Inr dz \<Rightarrow> Inr [dx, dy, dz])))"

definition dims_step :: "model_doc \<Rightarrow> int \<Rightarrow> row \<Rightarrow> row" where
  "dims_step model doc_type row =
     (case get_box model doc_type of
        Inl e \<Rightarrow> row
      | Inr None \<Rightarrow> row
      | Inr (Some box) \<Rightarrow>
          if box = [] then row
          else
            (case extents box of
               Inl e \<Rightarrow> row
             | Inr ds \<Rightarrow>
                 (let dims = sort ds;
                      row1 = setitem row ''Length (mm)'' (PFloat (py_round (dims ! 2 * 1000) 2));
                      row2 = setitem row1 ''Width (mm)'' (PFloat (py_round (dims ! 1 * 1000) 2))
                  in setitem row2 ''Height (mm)'' (PFloat (py_round (dims ! 0 * 1000) 2)))))"

subsection \<open>The row of an opened document, lines 136 to 238\<close>

definition extract_row ::
  "string \<Rightarrow> string \<Rightarrow> model_doc \<Rightarrow> int \<Rightarrow> bool \<Rightarrow> bool \<Rightarrow> bool \<Rightarrow> bool \<Rightarrow> row" where
  "extract_row file_name file_path model doc_type get_mass get_dims get_sm get_props =
     (let row = [(''File Name'', PStr file_name), (''Status'', PStr ''Success''),
                 (''Path'', PStr file_path)];
          row1 = (if get_props
                  then setitem
                         (setitem
                            (setitem row ''Part Number''
                               (PStr (get_custom_property model ''Part Number'')))
                            ''Description'' (PStr (get_custom_property model ''Description'')))
                         ''Revision'' (PStr (get_custom_property model ''Revision''))
                  else row);
          row2 = (if get_props \<and> doc_type = 1
                  then setitem row1 ''Material'' (PStr (get_material model doc_type))
                  else setitem row1 ''Material'' (PStr ''''));
          row3 = (if get_mass then mass_step model row2 else row2);
          row4 = (if get_sm \<and> doc_type = 1 then sheet_metal_step model row3 else row3)
      in if get_dims then dims_step model doc_type row4 else row4)"

section \<open>The batch, lines 93 to 259\<close>

text \<open>
  One pass of the loop body on \<^verbatim>\<open>results_list\<close>: the list after it and the
  exception that left the loop, if any. \<open>basename\<close> is \<^verbatim>\<open>os.path.basename\<close>. The
  progress widgets are presentation only and left out.
\<close>

definition failed_row :: "string \<Rightarrow> row" where
  "failed_row file_name =
     [(''File Name'', PStr file_name), (''Status'', PStr ''Failed to Open'')]"

definition loop_body ::
  "(string \<Rightarrow> string) \<Rightarrow> sld_works \<Rightarrow> bool \<Rightarrow> bool \<Rightarrow> bool \<Rightarrow> bool \<Rightarrow>
     row list \<Rightarrow> string \<Rightarrow> row list \<times> exn option" where
  "loop_body basename swApp get_mass get_dims get_sm get_props results_list file_path =
     (let file_name = basename file_path;
          doc_type = doc_type_of file_path
      in case DocumentVisible swApp False doc_type of
           Inl e \<Rightarrow> (results_list, Some e)
         | Inr u \<Rightarrow>
      (case OpenDoc6 swApp file_path doc_type of
           Inl e \<Rightarrow> (results_list, Some e)
         | Inr None \<Rightarrow> (results_list @ [failed_row file_name], None)
         | Inr (Some model) \<Rightarrow>
             (let row = extract_row file_name file_path model doc_type
                          get_mass get_dims get_sm get_props
              in case (case GetTitle_call model of
                         Inl e \<Rightarrow> GetTitle_attr model
                       | Inr t \<Rightarrow> Inr t) of
                   Inl e \<Rightarrow> (results_list, Some e)
                 | Inr title \<Rightarrow>
              (case CloseDoc swApp title of
                   Inl e \<Rightarrow> (results_list, Some e)
                 | Inr u' \<Rightarrow>
              (case DocumentVisible swApp True doc_type of
                   Inl e \<Rightarrow> (results_list @ [row], Some e)
                 | Inr u'' \<Rightarrow> (results_list @ [row], None))))))"

fun batch_loop ::
  "(string \<Rightarrow> string) \<Rightarrow> sld_works \<Rightarrow> bool \<Rightarrow> bool \<Rightarrow> bool \<Rightarrow> bool \<Rightarrow>
     row list \<Rightarrow> string list \<Rightarrow> row list \<times> exn option" where
  "batch_loop basename swApp get_mass get_dims get_sm get_props results_list [] =
     (results_list, None)"
| "batch_loop basename swApp get_mass get_dims get_sm get_props results_list
     (file_path # rest) =
     (case loop_body basename swApp get_mass get_dims get_sm get_props results_list file_path of
        (results_list', Some e) \<Rightarrow> (results_list', Some e)
      | (results_list', None) \<Rightarrow>
          batch_loop basename swApp get_mass get_dims get_sm get_props results_list' rest)"

text \<open>
  \<^verbatim>\<open>process_files\<close>: the returned list and the messages shown with \<^verbatim>\<open>st.error\<close>.
  \<open>GetActiveObject\<close> is the outcome of looking the running application up. An exception
  out of the loop is reported and \<^verbatim>\<open>results_list\<close> is returned as it then stands;
  restoring the visibility in the handler changes neither.
\<close>

definition process_files ::
  "(string \<Rightarrow> string) \<Rightarrow> sld_works res \<Rightarrow> string list \<Rightarrow> bool \<Rightarrow> bool \<Rightarrow> bool \<Rightarrow> bool \<Rightarrow>
     row list \<times> string list" where
  "process_files basename GetActiveObject file_list get_mass get_dims get_sm get_props =
     (case GetActiveObject of
        Inl e \<Rightarrow> ([], [''SolidWorks is not running. Please open it first.''])
      | Inr swApp \<Rightarrow>
          (case batch_loop basename swApp get_mass get_dims get_sm get_props [] file_list of
             (results_list, None) \<Rightarrow> (results_list, [])
           | (results_list, Some e) \<Rightarrow> (results_list, [''Critical Error: '' @ e])))"

text \<open>
  The record the loop appends for a file when no exception leaves the loop body: the
  short record when the handle is falsy, the extracted row otherwise.
\<close>

definition record_of ::
  "(string \<Rightarrow> string) \<Rightarrow> sld_works \<Rightarrow> bool \<Rightarrow> bool \<Rightarrow> bool \<Rightarrow> bool \<Rightarrow> string \<Rightarrow> row" where
  "record_of basename swApp get_mass get_dims get_sm get_props file_path =
     (case OpenDoc6 swApp file_path (doc_type_of file_path) of
        Inr (Some model) \<Rightarrow>
          extract_row (basename file_path) file_path model (doc_type_of file_path)
            get_mass get_dims get_sm get_props
      | _ \<Rightarrow> failed_row (basename file_path))"

section \<open>Sample documents\<close>

text \<open>
  Concrete objects on which the theorems below are instantiated. \<open>sample_basename\<close>
  gives the component after the last slash or backslash. \<open>failing_doc\<close> raises on every
  call. \<open>sample_part\<close> is a part whose custom material is the placeholder, whose mass
  properties are 2.5 kg, 0.000003 cubic metres and 0.045 square metres, whose box has
  the corners (0,0,0) and (10,50,5), and whose only feature is a sheet-metal feature
  with a definition that cannot be read. \<open>bare_part\<close> offers a title and one extrusion.
  \<open>sample_app\<close> opens the first two, returns a falsy handle for an assembly and raises
  for every other path.
\<close>

definition sample_basename :: "string \<Rightarrow> string" where
  "sample_basename p = rev (takeWhile (\<lambda>c. c \<noteq> CHR ''/'' \<and> c \<noteq> CHR 0x5C) (rev p))"

definition failing_doc :: model_doc where
  "failing_doc =
     \<lparr>GetActiveConfiguration = Inl ''com_error'',
      Extension_CustomPropertyManager = Inl ''com_error'',
      GetMaterialPropertyName2 = (\<lambda>n. Inl ''com_error''),
      Extension_CreateMassProperty = Inl ''com_error'',
      GetMassProperties = Inl ''com_error'',
      FeatureManager_GetFeatures = Inl ''com_error'',
      GetPartBox = Inl ''com_error'',
      GetBox0 = Inl ''com_error'',
      GetTitle_call = Inl ''com_error'',
      GetTitle_attr = Inl ''com_error''\<rparr>"

definition sample_props :: prop_mgr where
  "sample_props =
     \<lparr>Get4 = (\<lambda>n. if n = ''Material'' then Inr ''SW-Material-Generic''
                   else if n = ''Part Number'' then Inr ''BR-100'' else Inr '''')\<rparr>"

definition sample_config :: configuration where
  "sample_config =
     \<lparr>CustomPropertyManager = Inr sample_props, Name = Inr ''Default'',
      GetBox = Inl ''com_error''\<rparr>"

definition sample_mass :: mass_property where
  "sample_mass =
     \<lparr>set_UseSystemUnits = Inr (), UpdateMassProperties = Inr (),
      Mass = Inr (5 / 2), Volume = Inr (3 / 1000000), SurfaceArea = Inr (45 / 1000)\<rparr>"

definition broken_flange :: feature where
  "broken_flange =
     \<lparr>GetTypeName2 = Inr ''SheetMetal'', GetDefinition_call = Inl ''com_error'',
      GetDefinition_attr = Inl ''com_error''\<rparr>"

definition boss_extrude :: feature where
  "boss_extrude =
     \<lparr>GetTypeName2 = Inr ''Extrusion'', GetDefinition_call = Inl ''com_error'',
      GetDefinition_attr = Inl ''com_error''\<rparr>"

definition sample_part :: model_doc where
  "sample_part =
     \<lparr>GetActiveConfiguration = Inr (Some sample_config),
      Extension_CustomPropertyManager = Inl ''com_error'',
      GetMaterialPropertyName2 =
        (\<lambda>n. if n = ''Default'' then Inr ''Plain Carbon Steel'' else Inr ''''),
      Extension_CreateMassProperty = Inr sample_mass,
      GetMassProperties = Inl ''com_error'',
      FeatureManager_GetFeatures = Inr (Some [Inr broken_flange]),
      GetPartBox = Inr (Some [0, 0, 0, 10, 50, 5]),
      GetBox0 = Inl ''com_error'',
      GetTitle_call = Inr ''bracket.SLDPRT'',
      GetTitle_attr = Inl ''com_error''\<rparr>"

definition bare_part :: model_doc where
  "bare_part =
     failing_doc\<lparr>GetTitle_call := Inr ''plate.sldprt'',
       FeatureManager_GetFeatures := Inr (Some [Inr boss_extrude])\<rparr>"

definition sample_app :: sld_works where
  "sample_app =
     \<lparr>DocumentVisible = (\<lambda>v t. Inr ()),
      OpenDoc6 = (\<lambda>p t. if p = ''C:/cad/bracket.SLDPRT'' then Inr (Some sample_part)
                         else if p = ''C:/cad/plate.sldprt'' then Inr (Some bare_part)
                         else if p = ''C:/cad/frame.sldasm'' then Inr None
                         else Inl ''com_error''),
      CloseDoc = (\<lambda>t. Inr ())\<rparr>"

section \<open>Rows\<close>

lemma dict_get_setitem:
  "dict_get (setitem r k v) k' = (if k' = k then Some v else dict_get r k')"
  by (induction r k v rule: setitem.induct) (auto simp: dict_get_def)

lemma dict_keys_setitem:
  "dict_keys (setitem r k v) =
     (if k \<in> set (dict_keys r) then dict_keys r else dict_keys r @ [k])"
  by (induction r k v rule: setitem.induct) (auto simp: dict_keys_def)

lemma set_dict_keys_setitem:
  "set (dict_keys (setitem r k v)) = insert k (set (dict_keys r))"
  by (auto simp: dict_keys_setitem)

lemma dict_get_None_iff: "dict_get r k = None \<longleftrightarrow> k \<notin> set (dict_keys r)"
  by (simp add: dict_get_def dict_keys_def map_of_eq_None_iff)

section \<open>What each step leaves alone\<close>

lemma mass_zero_get:
  "k \<noteq> ''Mass (g)'' \<Longrightarrow> k \<noteq> ''Volume (mm^3)'' \<Longrightarrow> k \<noteq> ''Surface Area (mm^2)'' \<Longrightarrow>
   dict_get (mass_zero r) k = dict_get r k"
  by (simp add: mass_zero_def dict_get_setitem)

lemma mass_legacy_get:
  "k \<noteq> ''Mass (g)'' \<Longrightarrow> k \<noteq> ''Volume (mm^3)'' \<Longrightarrow> k \<noteq> ''Surface Area (mm^2)'' \<Longrightarrow>
   dict_get (mass_legacy m r) k = dict_get r k"
  by (simp add: mass_legacy_def mass_zero_get dict_get_setitem Let_def
      split: sum.splits option.splits)

lemma mass_primary_get:
  "k \<noteq> ''Mass (g)'' \<Longrightarrow> k \<noteq> ''Volume (mm^3)'' \<Longrightarrow> k \<noteq> ''Surface Area (mm^2)'' \<Longrightarrow>
   dict_get (fst (mass_primary m r)) k = dict_get r k"
  by (simp add: mass_primary_def dict_get_setitem Let_def split: sum.splits)

lemma mass_step_get:
  assumes "k \<noteq> ''Mass (g)''" "k \<noteq> ''Volume (mm^3)''" "k \<noteq> ''Surface Area (mm^2)''"
  shows "dict_get (mass_step m r) k = dict_get r k"
proof (cases "mass_primary m r")
  case (Pair r' x)
  have "dict_get r' k = dict_get r k"
    using mass_primary_get [OF assms, of m r] Pair by simp
  then show ?thesis
    using Pair assms by (cases x) (simp_all add: mass_step_def mass_legacy_get)
qed

lemma sheet_metal_step_get:
  "k \<noteq> ''Is Sheet Metal'' \<Longrightarrow> k \<noteq> ''Thickness (mm)'' \<Longrightarrow>
   dict_get (sheet_metal_step m r) k = dict_get r k"
  by (simp add: sheet_metal_step_def dict_get_setitem Let_def split: prod.splits)

lemma dims_step_get:
  "k \<noteq> ''Length (mm)'' \<Longrightarrow> k \<noteq> ''Width (mm)'' \<Longrightarrow> k \<noteq> ''Height (mm)'' \<Longrightarrow>
   dict_get (dims_step m dt r) k = dict_get r k"
  by (simp add: dims_step_def dict_get_setitem Let_def split: sum.splits option.splits)

lemma extract_row_file_name:
  "dict_get (extract_row fn fp m dt gm gd gs gp) ''File Name'' = Some (PStr fn)"
  by (simp add: extract_row_def Let_def dims_step_get sheet_metal_step_get mass_step_get
      dict_get_setitem) (simp add: dict_get_def)

lemma failed_row_file_name:
  "dict_get (failed_row fn) ''File Name'' = Some (PStr fn)"
  by (simp add: failed_row_def dict_get_def)

lemma record_of_file_name:
  "dict_get (record_of bn app gm gd gs gp p) ''File Name'' = Some (PStr (bn p))"
  by (simp add: record_of_def extract_row_file_name failed_row_file_name
      split: sum.splits option.splits)

section \<open>The loop\<close>

lemma loop_body_None:
  "loop_body bn app gm gd gs gp rs p = (rs', None) \<Longrightarrow>
   rs' = rs @ [record_of bn app gm gd gs gp p]"
  by (auto simp: loop_body_def record_of_def Let_def split: sum.splits option.splits)

lemma loop_body_Some:
  "loop_body bn app gm gd gs gp rs p = (rs', Some e) \<Longrightarrow>
   rs' = rs \<or> rs' = rs @ [record_of bn app gm gd gs gp p]"
  by (auto simp: loop_body_def record_of_def Let_def split: sum.splits option.splits)

text \<open>
  Whatever the loop returns, it has appended the records of an initial segment of the
  files, and of all of them when no exception left it.
\<close>

lemma batch_loop_prefix:
  "batch_loop bn app gm gd gs gp acc files = (rs, x) \<Longrightarrow>
   \<exists>n\<le>length files. rs = acc @ map (record_of bn app gm gd gs gp) (take n files)
      \<and> (x = None \<longrightarrow> n = length files)"
proof (induction files arbitrary: acc)
  case Nil
  then show ?case by auto
next
  case (Cons p ps)
  obtain r1 x1 where lb: "loop_body bn app gm gd gs gp acc p = (r1, x1)"
    by (cases "loop_body bn app gm gd gs gp acc p")
  show ?case
  proof (cases x1)
    case None
    then have r1: "r1 = acc @ [record_of bn app gm gd gs gp p]"
      using lb loop_body_None by blast
    from Cons.prems lb None
    have "batch_loop bn app gm gd gs gp r1 ps = (rs, x)" by simp
    from Cons.IH [OF this] obtain n where n: "n \<le> length ps"
      "rs = r1 @ map (record_of bn app gm gd gs gp) (take n ps)"
      "x = None \<longrightarrow> n = length ps" by blast
    show ?thesis
      by (rule exI [of _ "Suc n"]) (use n r1 in simp)
  next
    case (Some e)
    then have res: "rs = r1" "x = Some e" using Cons.prems lb by simp_all
    from loop_body_Some lb Some
    have "r1 = acc \<or> r1 = acc @ [record_of bn app gm gd gs gp p]" by blast
    then show ?thesis
    proof
      assume "r1 = acc"
      then show ?thesis using res by (intro exI [of _ 0]) simp
    next
      assume "r1 = acc @ [record_of bn app gm gd gs gp p]"
      then show ?thesis using res by (intro exI [of _ 1]) simp
    qed
  qed
qed

lemma batch_loop_append:
  "batch_loop bn app gm gd gs gp acc (xs @ ys) =
   (case batch_loop bn app gm gd gs gp acc xs of
      (r, Some e) \<Rightarrow> (r, Some e)
    | (r, None) \<Rightarrow> batch_loop bn app gm gd gs gp r ys)"
  by (induction xs arbitrary: acc) (auto split: prod.splits option.splits)

section \<open>The record of a file that opens, all options off\<close>




section \<open>One record per file, in order\<close>

text \<open>
  When the application cannot be reached, the result is empty whatever the files; when
  opening the second of three files raises, the result has one record. Either way the
  length differs from the number of files, against claim C2.
\<close>

theorem result_length_counterexample:
  "length (fst (process_files sample_basename (Inl ''Operation unavailable'')
      [''C:/cad/bracket.SLDPRT''] True True True True))
     \<noteq> length [''C:/cad/bracket.SLDPRT'']
   \<and> length (fst (process_files sample_basename (Inr sample_app)
      [''C:/cad/bracket.SLDPRT'', ''C:/cad/ghost.sldprt'', ''C:/cad/plate.sldprt'']
      True True True True))
     \<noteq> length [''C:/cad/bracket.SLDPRT'', ''C:/cad/ghost.sldprt'', ''C:/cad/plate.sldprt'']"
  by code_simp

text \<open>
  Claim C2, amended: for every input file list, \<^verbatim>\<open>process_files\<close> returns the records
  of an initial segment of the list, in input order: the result is no longer than the
  list, the record at position \<open>i\<close> is the record of the file at position \<open>i\<close> and bears
  its base name, and the lengths are equal when no error message is shown, that is when
  the application was reached and no exception left the loop.
\<close>

theorem result_prefix_in_order:
  assumes "process_files basename GetActiveObject file_list get_mass get_dims get_sm get_props
             = (results_list, errors)"
  shows "length results_list \<le> length file_list
     \<and> (\<forall>i<length results_list.
          dict_get (results_list ! i) ''File Name'' = Some (PStr (basename (file_list ! i)))
          \<and> (\<exists>swApp. GetActiveObject = Inr swApp
               \<and> results_list ! i =
                   record_of basename swApp get_mass get_dims get_sm get_props (file_list ! i)))
     \<and> (errors = [] \<longrightarrow> length results_list = length file_list)"
proof (cases GetActiveObject)
  case (Inl e)
  then show ?thesis using assms by (auto simp: process_files_def)
next
  case (Inr swApp)
  obtain rs x where bl:
    "batch_loop basename swApp get_mass get_dims get_sm get_props [] file_list = (rs, x)"
    by (cases "batch_loop basename swApp get_mass get_dims get_sm get_props [] file_list")
  from batch_loop_prefix [OF bl] obtain n where n: "n \<le> length file_list"
    and rs: "rs = map (record_of basename swApp get_mass get_dims get_sm get_props)
                    (take n file_list)"
    and full: "x = None \<longrightarrow> n = length file_list" by auto
  have "process_files basename GetActiveObject file_list get_mass get_dims get_sm get_props
          = (rs, case x of None \<Rightarrow> [] | Some e \<Rightarrow> [''Critical Error: '' @ e])"
    using Inr bl by (simp add: process_files_def split: option.split)
  with assms have res: "results_list = rs"
    and errs: "errors = (case x of None \<Rightarrow> [] | Some e \<Rightarrow> [''Critical Error: '' @ e])"
    by simp_all
  have err: "errors = [] \<longrightarrow> x = None"
    using errs by (cases x) simp_all
  have len: "length results_list = n" using res rs n by simp
  have nth: "results_list ! i =
      record_of basename swApp get_mass get_dims get_sm get_props (file_list ! i)"
    if "i < length results_list" for i
    using that res rs n by simp
  show ?thesis
    using len n full err nth Inr by (auto simp: record_of_file_name)
qed

theorem result_prefix_in_order_witness:
  "length (fst (process_files sample_basename (Inr sample_app)
      [''C:/cad/bracket.SLDPRT'', ''C:/cad/frame.sldasm''] True True True True)) = 2
   \<and> snd (process_files sample_basename (Inr sample_app)
      [''C:/cad/bracket.SLDPRT'', ''C:/cad/frame.sldasm''] True True True True) = []
   \<and> dict_get (fst (process_files sample_basename (Inr sample_app)
      [''C:/cad/bracket.SLDPRT'', ''C:/cad/frame.sldasm''] True True True True) ! 1)
        ''File Name'' = Some (PStr ''frame.sldasm'')"
proof -
  let ?out = "process_files sample_basename (Inr sample_app)
      [''C:/cad/bracket.SLDPRT'', ''C:/cad/frame.sldasm''] True True True True"
  have e: "?out = (fst ?out, snd ?out)" by simp
  have errs: "snd ?out = []" by code_simp
  have bn: "sample_basename ''C:/cad/frame.sldasm'' = ''frame.sldasm''" by code_simp
  note t = result_prefix_in_order [OF e]
  from t errs have len: "length (fst ?out) = 2" by simp
  from t have "\<forall>i<length (fst ?out). dict_get (fst ?out ! i) ''File Name''
      = Some (PStr (sample_basename ([''C:/cad/bracket.SLDPRT'', ''C:/cad/frame.sldasm''] ! i)))"
    by blast
  from this [rule_format, of 1] len bn errs show ?thesis by simp
qed

section \<open>An exception that leaves the loop\<close>

text \<open>
  Two files, the first with a falsy handle, the second raising when it is opened: the
  error message is shown and the record of the first file is returned, not discarded as
  claim C4 has it.
\<close>

theorem partial_results_counterexample:
  "fst (process_files sample_basename (Inr sample_app)
      [''C:/cad/frame.sldasm'', ''C:/cad/ghost.sldprt''] True True True True)
     = [[(''File Name'', PStr ''frame.sldasm''), (''Status'', PStr ''Failed to Open'')]]
   \<and> fst (process_files sample_basename (Inr sample_app)
      [''C:/cad/frame.sldasm'', ''C:/cad/ghost.sldprt''] True True True True) \<noteq> []
   \<and> snd (process_files sample_basename (Inr sample_app)
      [''C:/cad/frame.sldasm'', ''C:/cad/ghost.sldprt''] True True True True)
     = [''Critical Error: com_error'']"
  by code_simp

text \<open>
  Claim C4, amended: if an exception is raised in the batch loop after some files have
  been processed, \<^verbatim>\<open>process_files\<close> shows a single Critical Error message and returns
  the records gathered before the exception, one for each file processed, and nothing
  for the files after the one that raised.
\<close>

theorem partial_results_returned:
  assumes "batch_loop basename swApp get_mass get_dims get_sm get_props [] done_files
             = (results_list, None)"
    and "loop_body basename swApp get_mass get_dims get_sm get_props results_list file_path
             = (results_list', Some e)"
  shows "process_files basename (Inr swApp) (done_files @ file_path # rest)
             get_mass get_dims get_sm get_props
           = (results_list', [''Critical Error: '' @ e])
     \<and> results_list = map (record_of basename swApp get_mass get_dims get_sm get_props) done_files
     \<and> take (length done_files) results_list' = results_list
     \<and> length results_list' \<le> Suc (length done_files)"
proof -
  from batch_loop_prefix [OF assms(1)]
  have rs: "results_list =
      map (record_of basename swApp get_mass get_dims get_sm get_props) done_files"
    by auto
  have "batch_loop basename swApp get_mass get_dims get_sm get_props []
          (done_files @ file_path # rest) = (results_list', Some e)"
    using assms by (simp add: batch_loop_append)
  then have out: "process_files basename (Inr swApp) (done_files @ file_path # rest)
             get_mass get_dims get_sm get_props = (results_list', [''Critical Error: '' @ e])"
    by (simp add: process_files_def)
  from loop_body_Some [OF assms(2)]
  have "take (length done_files) results_list' = results_list
        \<and> length results_list' \<le> Suc (length done_files)"
    using rs by auto
  with out rs show ?thesis by simp
qed

theorem partial_results_returned_witness:
  "process_files sample_basename (Inr sample_app)
      ([''C:/cad/frame.sldasm''] @ ''C:/cad/ghost.sldprt'' # [''C:/cad/plate.sldprt''])
      True True True True
     = ([failed_row ''frame.sldasm''], [''Critical Error: '' @ ''com_error''])
   \<and> [failed_row ''frame.sldasm'']
     = map (record_of sample_basename sample_app True True True True) [''C:/cad/frame.sldasm'']"
proof -
  have a: "batch_loop sample_basename sample_app True True True True [] [''C:/cad/frame.sldasm'']
             = ([failed_row ''frame.sldasm''], None)"
    by code_simp
  have b: "loop_body sample_basename sample_app True True True True
             [failed_row ''frame.sldasm''] ''C:/cad/ghost.sldprt''
             = ([failed_row ''frame.sldasm''], Some ''com_error'')"
    by code_simp
  from partial_results_returned [OF a b, of "[''C:/cad/plate.sldprt'']"]
  show ?thesis by simp
qed

section \<open>A file that does not open\<close>



section \<open>Material\<close>

text \<open>
  Claim C6: for every document kind other than part, \<^verbatim>\<open>get_material\<close> returns
  \<^verbatim>\<open>N/A (Assembly)\<close> whatever the document; for a part whose Material property
  contains \<^verbatim>\<open>SW-Material\<close>, the result is the one of the native lookup, not the
  property; and when neither the property nor the native lookup yields a value, the
  result is \<^verbatim>\<open>Not Specified\<close>.
\<close>

theorem material_resolution:
  "(doc_type \<noteq> 1 \<longrightarrow> get_material model doc_type = ''N/A (Assembly)'')
   \<and> (doc_type = 1 \<and> contains (get_custom_property model ''Material'') ''SW-Material'' \<longrightarrow>
        get_material model doc_type =
          (case native_material model of
             Inl e \<Rightarrow> ''Not Specified''
           | Inr mat_name \<Rightarrow> if mat_name \<noteq> '''' then mat_name else ''Not Specified''))
   \<and> (doc_type = 1
        \<and> (get_custom_property model ''Material'' = ''''
            \<or> contains (get_custom_property model ''Material'') ''SW-Material'')
        \<and> (case native_material model of Inl e \<Rightarrow> True | Inr mat_name \<Rightarrow> mat_name = '''') \<longrightarrow>
        get_material model doc_type = ''Not Specified'')"
  by (auto simp: get_material_def Let_def split: sum.splits)

theorem material_resolution_witness:
  "get_material sample_part 2 = ''N/A (Assembly)''
   \<and> get_custom_property sample_part ''Material'' = ''SW-Material-Generic''
   \<and> get_material sample_part 1 = ''Plain Carbon Steel''
   \<and> get_material failing_doc 1 = ''Not Specified''"
proof -
  have p: "get_custom_property sample_part ''Material'' = ''SW-Material-Generic''"
    by code_simp
  have c: "contains ''SW-Material-Generic'' ''SW-Material''" by code_simp
  have n: "native_material sample_part = Inr ''Plain Carbon Steel''" by code_simp
  have p': "get_custom_property failing_doc ''Material'' = ''''" by code_simp
  have n': "native_material failing_doc = Inl ''com_error''" by code_simp
  from material_resolution [of 2 sample_part] material_resolution [of 1 sample_part]
    material_resolution [of 1 failing_doc] p c n p' n'
  show ?thesis by simp
qed

end
